theory Spec2Isabelle
  imports Complex_Main "HOL-Library.Word"
begin

text \<open>
  The notebook \<^verbatim>\<open>TensorFlow_with_GPU.ipynb\<close> writes, compiles and runs two programs that
  add two vectors of 1000000 \<^verbatim>\<open>float\<close>: \<^verbatim>\<open>vector_addition_parallel.cu\<close>, whose kernel
  \<^verbatim>\<open>vectorAddParallel\<close> runs on a CUDA device, and \<^verbatim>\<open>vector_addition_sequential.cpp\<close>,
  whose function \<^verbatim>\<open>vectorAddSequential\<close> is a loop on the host. Each prints the time its
  addition took. This theory embeds both programs and proves what holds of them.
  Memory is assumed to suffice for the vectors.
\<close>

section \<open>Machine integers of the two programs\<close>

text \<open>
  Both programs are compiled for a 64-bit Linux host (LP64): \<^verbatim>\<open>int\<close> has 32 bits,
  \<^verbatim>\<open>unsigned int\<close> has 32 bits, \<^verbatim>\<open>size_t\<close> has 64 bits. Values of these types are
  modelled as \<^typ>\<open>int\<close> and \<^typ>\<open>nat\<close> with the wrap-around written out.
\<close>

definition INT_MAX :: int where
  "INT_MAX = 2147483647"

definition to_uint32 :: "nat \<Rightarrow> nat" where
  \<comment> \<open>arithmetic on \<^verbatim>\<open>unsigned int\<close> is arithmetic modulo \<open>2^32\<close>\<close>
  "to_uint32 x = x mod 4294967296"

definition to_int32 :: "int \<Rightarrow> int" where
  \<comment> \<open>conversion of a wider or unsigned value to \<^verbatim>\<open>int\<close>: the low 32 bits, read as two's complement\<close>
  "to_int32 x = (let y = x mod 4294967296 in if y \<le> INT_MAX then y else y - 4294967296)"

definition int_div_trunc :: "int \<Rightarrow> int \<Rightarrow> int" where
  \<comment> \<open>the \<^verbatim>\<open>/\<close> of C++ on integers rounds towards zero\<close>
  "int_div_trunc x y = (if (x < 0) = (y < 0) then \<bar>x\<bar> div \<bar>y\<bar> else - (\<bar>x\<bar> div \<bar>y\<bar>))"

section \<open>Single-precision floating point\<close>

text \<open>
  The elements of the vectors are \<^verbatim>\<open>float\<close>: IEEE 754 binary32. A value is its 32 bits,
  kept as the three fields sign, biased exponent and fraction, so that two values are equal
  exactly when their bits are. With exponent field \<open>e < 255\<close> and fraction \<open>f\<close> the value is
  the number \<open>(2^23 + f) * 2^(e - 150)\<close> when \<open>e > 0\<close> and \<open>f * 2^(-149)\<close> when \<open>e = 0\<close>; with
  \<open>e = 255\<close> it is an infinity when \<open>f = 0\<close> and a NaN otherwise.

  Where the sum of two values is a number or an infinity, IEEE 754 fixes its bits, and the
  host and the device deliver the same. Where it is a NaN, the standard leaves the bits to
  the processor. The host is an x86-64 processor, whose \<^verbatim>\<open>addss\<close> returns a NaN operand
  with its quiet bit set and, for the sum of two opposite infinities, the default NaN
  \<open>0xFFC00000\<close>; which of two NaN operands it returns depends on the order in which the
  compiler hands them to \<^verbatim>\<open>addss\<close>, and the model takes \<^verbatim>\<open>a[i]\<close>. The device returns
  the canonical NaN \<open>0x7FFFFFFF\<close> for every NaN sum of \<^verbatim>\<open>float\<close>. No result below
  depends on which NaN operand the host returns.
\<close>

datatype float32 = Float32 (f32_sign: bool) (f32_exponent: "8 word") (f32_fraction: "23 word")

definition is_nan :: "float32 \<Rightarrow> bool" where
  "is_nan x = (f32_exponent x = 255 \<and> f32_fraction x \<noteq> 0)"

definition is_infinity :: "float32 \<Rightarrow> bool" where
  "is_infinity x = (f32_exponent x = 255 \<and> f32_fraction x = 0)"

definition f32_scaled :: "float32 \<Rightarrow> int" where
  \<comment> \<open>the value of a finite float, counted in units of \<open>2^(-149)\<close>\<close>
  "f32_scaled x =
     (if f32_sign x then -1 else 1) *
     (if f32_exponent x = 0 then uint (f32_fraction x)
      else (8388608 + uint (f32_fraction x)) * 2 ^ (unat (f32_exponent x) - 1))"

fun bit_length :: "nat \<Rightarrow> nat" where
  "bit_length m = (if m = 0 then 0 else Suc (bit_length (m div 2)))"

declare bit_length.simps [simp del]

definition f32_round :: "bool \<Rightarrow> nat \<Rightarrow> float32" where
  \<comment> \<open>the float nearest to \<open>m * 2^(-149)\<close> (sign \<open>s\<close>), ties to the even significand;
      a carry out of the 24-bit significand moves into the exponent field, and an
      exponent field of 255 or more is an infinity\<close>
  "f32_round s m =
     (let sh = bit_length m - 24;
          q = m div 2 ^ sh;
          r = m mod 2 ^ sh;
          q' = (if 2 ^ sh < 2 * r \<or> (2 * r = 2 ^ sh \<and> odd q) then q + 1 else q);
          bits = sh * 8388608 + q'
      in if 2139095040 \<le> bits then Float32 s 255 0
         else Float32 s (of_nat (bits div 8388608)) (of_nat (bits mod 8388608)))"

definition fadd_number :: "float32 \<Rightarrow> float32 \<Rightarrow> float32 option" where
  \<comment> \<open>the sum where IEEE 754 fixes it: a number or an infinity; \<open>None\<close> where the sum is a NaN\<close>
  "fadd_number x y =
     (if is_nan x \<or> is_nan y then None
      else if is_infinity x then
        (if is_infinity y \<and> f32_sign y \<noteq> f32_sign x then None else Some x)
      else if is_infinity y then Some y
      else
        let v = f32_scaled x + f32_scaled y
        in Some (if v = 0 then Float32 (f32_sign x \<and> f32_sign y) 0 0
                 else f32_round (v < 0) (nat \<bar>v\<bar>)))"

definition quiet :: "float32 \<Rightarrow> float32" where
  \<comment> \<open>a NaN with its quiet bit, the first bit of the fraction, set\<close>
  "quiet x = Float32 (f32_sign x) 255 (set_bit 22 (f32_fraction x))"

definition f32_default_nan :: float32 where
  \<comment> \<open>\<open>0xFFC00000\<close>, the NaN that x86 returns for an invalid operation\<close>
  "f32_default_nan = Float32 True 255 4194304"

definition f32_canonical_nan :: float32 where
  \<comment> \<open>\<open>0x7FFFFFFF\<close>, the NaN that the device returns\<close>
  "f32_canonical_nan = Float32 False 255 8388607"

definition fadd_host :: "float32 \<Rightarrow> float32 \<Rightarrow> float32" where
  \<comment> \<open>\<^verbatim>\<open>a[i] + b[i]\<close> in \<^verbatim>\<open>vectorAddSequential\<close>, on the host\<close>
  "fadd_host x y =
     (case fadd_number x y of
        Some z \<Rightarrow> z
      | None \<Rightarrow> if is_nan x then quiet x else if is_nan y then quiet y else f32_default_nan)"

definition fadd_device :: "float32 \<Rightarrow> float32 \<Rightarrow> float32" where
  \<comment> \<open>\<^verbatim>\<open>a[i] + b[i]\<close> in \<^verbatim>\<open>vectorAddParallel\<close>, on the device\<close>
  "fadd_device x y =
     (case fadd_number x y of Some z \<Rightarrow> z | None \<Rightarrow> f32_canonical_nan)"

definition f32_zero :: float32 where
  \<comment> \<open>\<^verbatim>\<open>0.0f\<close>, the value of a value-initialised \<^verbatim>\<open>float\<close>\<close>
  "f32_zero = Float32 False 0 0"

definition f32_one :: float32 where
  \<comment> \<open>\<^verbatim>\<open>1.0f\<close> = \<open>0x3F800000\<close>\<close>
  "f32_one = Float32 False 127 0"

definition f32_two :: float32 where
  \<comment> \<open>\<^verbatim>\<open>2.0f\<close> = \<open>0x40000000\<close>\<close>
  "f32_two = Float32 False 128 0"

definition f32_three :: float32 where
  \<comment> \<open>\<^verbatim>\<open>3.0f\<close> = \<open>0x40400000\<close>\<close>
  "f32_three = Float32 False 128 4194304"

definition f32_infinity :: "bool \<Rightarrow> float32" where
  \<comment> \<open>\<open>+\<infinity>\<close> = \<open>0x7F800000\<close> and, with the sign set, \<open>-\<infinity>\<close> = \<open>0xFF800000\<close>\<close>
  "f32_infinity s = Float32 s 255 0"

section \<open>What the programs can do besides returning\<close>

datatype fault =
    Length_Error \<comment> \<open>\<^verbatim>\<open>std::vector\<close> constructed with a negative \<^verbatim>\<open>int\<close> size: \<^verbatim>\<open>std::length_error\<close> is thrown and never caught\<close>
  | Signed_Overflow \<comment> \<open>arithmetic on \<^verbatim>\<open>int\<close> leaves the range of \<^verbatim>\<open>int\<close>: undefined behaviour\<close>
  | Out_Of_Bounds \<comment> \<open>an element is read or written outside of its vector or buffer: undefined behaviour\<close>

section \<open>Printing\<close>

definition digit_char :: "nat \<Rightarrow> char" where
  "digit_char d = ''0123456789'' ! d"

fun string_of_nat :: "nat \<Rightarrow> string" where
  "string_of_nat n =
     (if n < 10 then [digit_char n]
      else string_of_nat (n div 10) @ [digit_char (n mod 10)])"

declare string_of_nat.simps [simp del]

definition string_of_int :: "int \<Rightarrow> string" where
  \<comment> \<open>\<^verbatim>\<open>std::cout << k\<close> for an integer \<open>k\<close>: decimal digits, a minus sign first when negative\<close>
  "string_of_int k = (if k < 0 then CHR ''-'' # string_of_nat (nat (- k)) else string_of_nat (nat k))"

definition newline :: char where
  "newline = CHR 0x0A"

section \<open>The environment of a run\<close>

datatype cudaError = cudaSuccess | cudaErrorInvalidConfiguration | cudaErrorOther nat

record environment =
  clock :: "nat \<Rightarrow> int"
    \<comment> \<open>the \<open>k\<close>-th reading of \<^verbatim>\<open>std::chrono::high_resolution_clock::now()\<close>, in nanoseconds\<close>
  device_error :: cudaError
    \<comment> \<open>the error that the device or its runtime has recorded, for a cause outside of the
        program text, by the time \<^verbatim>\<open>cudaDeviceSynchronize\<close> returns\<close>
  cudaGetErrorString :: "cudaError \<Rightarrow> string"
  thread_priority :: "nat \<times> nat \<Rightarrow> int"
    \<comment> \<open>the device runs the threads (block index, thread index) of a launch in the order
        of these numbers, which are its own choice\<close>
  device_garbage :: "nat \<Rightarrow> float32"
    \<comment> \<open>what freshly allocated device memory holds\<close>

record outcome =
  exit_status :: int
  stdout :: string
  stderr :: string
  h_c :: "float32 list"

section \<open>The host vectors of both programs\<close>

definition host_vectors :: "int \<Rightarrow> fault + (float32 list \<times> float32 list \<times> float32 list)" where
  \<comment> \<open>\<^verbatim>\<open>std::vector<float> h_a(size, 1.0f); std::vector<float> h_b(size, 2.0f);
      std::vector<float> h_c(size);\<close>\<close>
  "host_vectors size_n =
     (if size_n < 0 then Inl Length_Error
      else Inr (replicate (nat size_n) f32_one,
                replicate (nat size_n) f32_two,
                replicate (nat size_n) f32_zero))"

definition elapsed_milliseconds :: "int \<Rightarrow> int \<Rightarrow> int" where
  \<comment> \<open>\<^verbatim>\<open>duration_cast<milliseconds>(end_time - start_time).count()\<close>\<close>
  "elapsed_milliseconds start_time end_time = int_div_trunc (end_time - start_time) 1000000"

section \<open>The sequential adder\<close>

text \<open>
  \<^verbatim>\<open>vectorAddSequential\<close> reads \<^verbatim>\<open>n\<close> from \<^verbatim>\<open>a.size()\<close>, a \<^verbatim>\<open>size_t\<close> converted to
  \<^verbatim>\<open>int\<close>, and runs \<^verbatim>\<open>i\<close> from 0 while \<^verbatim>\<open>i < n\<close>. \<^verbatim>\<open>operator[]\<close> does not check its
  index. The three vectors are three objects, as in the one call of \<^verbatim>\<open>main\<close>; were
  \<^verbatim>\<open>c\<close> one of the inputs, round \<open>i\<close> would still read the elements at \<open>i\<close> before
  anything is written there, so \<open>a\<close> and \<open>b\<close> stand for the inputs as they are at the call.
\<close>

function vectorAddSequential_loop ::
  "int \<Rightarrow> int \<Rightarrow> float32 list \<Rightarrow> float32 list \<Rightarrow> float32 list \<Rightarrow> fault + float32 list" where
  "vectorAddSequential_loop i n a b c =
     (if i < n then
        (if 0 \<le> i \<and> nat i < length a \<and> nat i < length b \<and> nat i < length c
         then vectorAddSequential_loop (i + 1) n a b (c[nat i := fadd_host (a ! nat i) (b ! nat i)])
         else Inl Out_Of_Bounds)
      else Inr c)"
  by pat_completeness auto
termination
  by (relation "measure (\<lambda>(i, n, a, b, c). nat (n - i))") auto

declare vectorAddSequential_loop.simps [simp del]

definition vectorAddSequential ::
  "float32 list \<Rightarrow> float32 list \<Rightarrow> float32 list \<Rightarrow> fault + float32 list" where
  "vectorAddSequential a b c =
     (let n = to_int32 (int (length a)) in vectorAddSequential_loop 0 n a b c)"

definition main_sequential_sized :: "int \<Rightarrow> environment \<Rightarrow> fault + outcome" where
  "main_sequential_sized size_n env =
     (case host_vectors size_n of
        Inl e \<Rightarrow> Inl e
      | Inr (h_a, h_b, h_c0) \<Rightarrow>
          let start_time = clock env 0 in
          (case vectorAddSequential h_a h_b h_c0 of
             Inl e \<Rightarrow> Inl e
           | Inr h_c1 \<Rightarrow>
               let end_time = clock env 1;
                   duration = elapsed_milliseconds start_time end_time
               in Inr \<lparr>exit_status = 0,
                       stdout = ''Sequential Vector Addition took '' @ string_of_int duration
                                @ '' milliseconds.'' @ [newline],
                       stderr = [],
                       h_c = h_c1\<rparr>))"

definition main_sequential :: "environment \<Rightarrow> fault + outcome" where
  \<comment> \<open>\<^verbatim>\<open>int size = 1000 * 1000;\<close>\<close>
  "main_sequential env = main_sequential_sized (1000 * 1000) env"

section \<open>The parallel adder\<close>

subsection \<open>The kernel\<close>

text \<open>
  One thread of \<^verbatim>\<open>vectorAddParallel\<close>. \<^verbatim>\<open>threadIdx.x\<close>, \<^verbatim>\<open>blockDim.x\<close> and
  \<^verbatim>\<open>blockIdx.x\<close> are \<^verbatim>\<open>unsigned int\<close>; their sum and product become the \<^verbatim>\<open>int i\<close>.
  The pointers \<^verbatim>\<open>a\<close>, \<^verbatim>\<open>b\<close> and \<^verbatim>\<open>c\<close> are the three device buffers, each with the
  elements it was allocated for. A thread reads \<^verbatim>\<open>a\<close> and \<^verbatim>\<open>b\<close>, which no thread
  writes, and writes at most one element of \<^verbatim>\<open>c\<close>, which no thread reads: how the
  device interleaves the threads is the order in which their writes reach \<^verbatim>\<open>c\<close>.
  That order is the device's: a launch runs the threads of the grid sorted by the
  priorities that the environment of the run gives them.
\<close>

definition global_index :: "nat \<Rightarrow> nat \<Rightarrow> nat \<Rightarrow> int" where
  \<comment> \<open>\<^verbatim>\<open>int i = threadIdx.x + blockDim.x * blockIdx.x;\<close>\<close>
  "global_index blockDim_x blockIdx_x threadIdx_x =
     to_int32 (int (to_uint32 (threadIdx_x + blockDim_x * blockIdx_x)))"

definition vectorAddParallel ::
  "float32 list \<Rightarrow> float32 list \<Rightarrow> float32 list \<Rightarrow> int \<Rightarrow> nat \<Rightarrow> nat \<Rightarrow> nat \<Rightarrow> fault + float32 list" where
  "vectorAddParallel a b c n blockDim_x blockIdx_x threadIdx_x =
     (let i = global_index blockDim_x blockIdx_x threadIdx_x in
      if i < n then
        (if 0 \<le> i \<and> nat i < length a \<and> nat i < length b \<and> nat i < length c
         then Inr (c[nat i := fadd_device (a ! nat i) (b ! nat i)])
         else Inl Out_Of_Bounds)
      else Inr c)"

subsection \<open>The launch\<close>

definition grid_threads :: "nat \<Rightarrow> nat \<Rightarrow> (nat \<times> nat) list" where
  \<comment> \<open>the threads of a launch \<^verbatim>\<open><<<dim3(g, 1, 1), dim3(d, 1, 1)>>>\<close>: (block index, thread index)\<close>
  "grid_threads gridDim_x blockDim_x =
     concat (map (\<lambda>blockIdx_x. map (\<lambda>threadIdx_x. (blockIdx_x, threadIdx_x)) [0..<blockDim_x])
                 [0..<gridDim_x])"

fun run_threads ::
  "float32 list \<Rightarrow> float32 list \<Rightarrow> int \<Rightarrow> nat \<Rightarrow> (nat \<times> nat) list \<Rightarrow> float32 list \<Rightarrow> fault + float32 list" where
  "run_threads a b n blockDim_x [] c = Inr c"
| "run_threads a b n blockDim_x ((blockIdx_x, threadIdx_x) # ts) c =
     (case vectorAddParallel a b c n blockDim_x blockIdx_x threadIdx_x of
        Inl e \<Rightarrow> Inl e
      | Inr c' \<Rightarrow> run_threads a b n blockDim_x ts c')"

definition launch ::
  "(nat \<times> nat \<Rightarrow> int) \<Rightarrow> nat \<Rightarrow> nat \<Rightarrow>
   float32 list \<Rightarrow> float32 list \<Rightarrow> float32 list \<Rightarrow> int \<Rightarrow> fault + float32 list" where
  \<comment> \<open>\<^verbatim>\<open>vectorAddParallel<<<gridSize, blockSize>>>(d_a, d_b, d_c, size)\<close>, run to completion:
      every thread of the grid runs once, in the order of the device's priorities\<close>
  "launch priority gridDim_x blockDim_x a b c n =
     run_threads a b n blockDim_x (sort_key priority (grid_threads gridDim_x blockDim_x)) c"

definition launch_configuration_valid :: "nat \<Rightarrow> nat \<Rightarrow> bool" where
  \<comment> \<open>the CUDA runtime refuses a launch with an empty grid or block, or one beyond the
      limits of the device (\<open>2^31 - 1\<close> blocks along x, 1024 threads in a block), with
      \<^verbatim>\<open>cudaErrorInvalidConfiguration\<close>, and runs no thread of it\<close>
  "launch_configuration_valid gridDim_x blockDim_x =
     (0 < gridDim_x \<and> gridDim_x \<le> 2147483647 \<and> 0 < blockDim_x \<and> blockDim_x \<le> 1024)"

subsection \<open>The program\<close>

datatype buffer = D_a | D_b | D_c

datatype event =
    Cuda_Malloc buffer nat
  | Memcpy_Host_To_Device buffer
  | Clock_Now
  | Kernel_Launch nat nat
  | Device_Synchronize
  | Get_Last_Error
  | Write_Stderr
  | Memcpy_Device_To_Host buffer
  | Write_Stdout
  | Cuda_Free buffer

record parallel_outcome = outcome +
  trace :: "event list" \<comment> \<open>the calls of the run, in program order\<close>

definition gridSize_x :: "int \<Rightarrow> fault + int" where
  \<comment> \<open>\<^verbatim>\<open>(size + 255) / 256\<close> on \<^verbatim>\<open>int\<close>\<close>
  "gridSize_x size_n =
     (if INT_MAX < size_n + 255 then Inl Signed_Overflow
      else Inr (int_div_trunc (size_n + 255) 256))"

definition calls_up_to_check :: "nat \<Rightarrow> nat \<Rightarrow> nat \<Rightarrow> event list" where
  \<comment> \<open>the calls of \<^verbatim>\<open>main\<close> from the first \<^verbatim>\<open>cudaMalloc\<close> to \<^verbatim>\<open>cudaGetLastError\<close>\<close>
  "calls_up_to_check size_bytes gridSize blockSize =
     [Cuda_Malloc D_a size_bytes, Cuda_Malloc D_b size_bytes, Cuda_Malloc D_c size_bytes,
      Memcpy_Host_To_Device D_a, Memcpy_Host_To_Device D_b,
      Clock_Now, Kernel_Launch gridSize blockSize, Device_Synchronize, Get_Last_Error]"

definition main_parallel_sized :: "int \<Rightarrow> environment \<Rightarrow> fault + parallel_outcome" where
  "main_parallel_sized size_n env =
     (let size_bytes = nat ((size_n * 4) mod 18446744073709551616) in
      case host_vectors size_n of
        Inl e \<Rightarrow> Inl e
      | Inr (h_a, h_b, h_c0) \<Rightarrow>
          let d_a = h_a;
              d_b = h_b;
              d_c0 = map (device_garbage env) [0..<nat size_n]
          in
          (case gridSize_x size_n of
             Inl e \<Rightarrow> Inl e
           | Inr g \<Rightarrow>
               let gridSize = to_uint32 (nat g);
                   blockSize = 256;
                   start_time = clock env 0;
                   calls = calls_up_to_check size_bytes gridSize blockSize
               in
               (case (if launch_configuration_valid gridSize blockSize
                      then launch (thread_priority env) gridSize blockSize d_a d_b d_c0 size_n
                      else Inr d_c0) of
                  Inl e \<Rightarrow> Inl e
                | Inr d_c1 \<Rightarrow>
                    let cudaError = (if launch_configuration_valid gridSize blockSize
                                     then device_error env
                                     else cudaErrorInvalidConfiguration)
                    in
                    if cudaError \<noteq> cudaSuccess then
                      Inr \<lparr>exit_status = 1,
                           stdout = [],
                           stderr = ''CUDA error: '' @ cudaGetErrorString env cudaError @ [newline],
                           h_c = h_c0,
                           trace = calls @ [Write_Stderr]\<rparr>
                    else
                      let h_c1 = d_c1;
                          end_time = clock env 1;
                          duration = elapsed_milliseconds start_time end_time
                      in Inr \<lparr>exit_status = 0,
                              stdout = ''Parallel Vector Addition took '' @ string_of_int duration
                                       @ '' milliseconds.'' @ [newline],
                              stderr = [],
                              h_c = h_c1,
                              trace = calls @ [Memcpy_Device_To_Host D_c, Clock_Now, Write_Stdout,
                                               Cuda_Free D_a, Cuda_Free D_b, Cuda_Free D_c]\<rparr>)))"

definition main_parallel :: "environment \<Rightarrow> fault + parallel_outcome" where
  \<comment> \<open>\<^verbatim>\<open>int size = 1000 * 1000;\<close>\<close>
  "main_parallel env = main_parallel_sized (1000 * 1000) env"

subsection \<open>Reading a trace\<close>

fun still_allocated :: "event list \<Rightarrow> buffer set \<Rightarrow> buffer set" where
  \<comment> \<open>the device buffers allocated and not yet freed, after the calls of a trace\<close>
  "still_allocated [] live = live"
| "still_allocated (Cuda_Malloc d k # es) live = still_allocated es (insert d live)"
| "still_allocated (Cuda_Free d # es) live = still_allocated es (live - {d})"
| "still_allocated (e # es) live = still_allocated es live"

definition timed_interval :: "event list \<Rightarrow> event list" where
  \<comment> \<open>the calls after the first reading of the clock and before the next one\<close>
  "timed_interval es = takeWhile (\<lambda>e. e \<noteq> Clock_Now) (tl (dropWhile (\<lambda>e. e \<noteq> Clock_Now) es))"

definition before_timed_interval :: "event list \<Rightarrow> event list" where
  "before_timed_interval es = takeWhile (\<lambda>e. e \<noteq> Clock_Now) es"

definition after_timed_interval :: "event list \<Rightarrow> event list" where
  "after_timed_interval es =
     tl (dropWhile (\<lambda>e. e \<noteq> Clock_Now) (tl (dropWhile (\<lambda>e. e \<noteq> Clock_Now) es)))"

section \<open>Values used to state and to instantiate the results\<close>

definition added_upto ::
  "(float32 \<Rightarrow> float32 \<Rightarrow> float32) \<Rightarrow> nat \<Rightarrow> float32 list \<Rightarrow> float32 list \<Rightarrow> float32 list \<Rightarrow> float32 list" where
  \<comment> \<open>\<open>c\<close> with its first \<open>n\<close> elements replaced by the sums of those of \<open>a\<close> and \<open>b\<close>\<close>
  "added_upto add n a b c = map2 add (take n a) (take n b) @ drop n c"

definition error_text :: "cudaError \<Rightarrow> string" where
  "error_text e =
     (case e of
        cudaSuccess \<Rightarrow> ''no error''
      | cudaErrorInvalidConfiguration \<Rightarrow> ''invalid configuration argument''
      | cudaErrorOther k \<Rightarrow> ''unspecified launch failure'')"

definition last_to_first :: "nat \<times> nat \<Rightarrow> int" where
  \<comment> \<open>priorities that run the threads of 256-thread groups from the last to the first\<close>
  "last_to_first = (\<lambda>(blockIdx_x, threadIdx_x). - int (threadIdx_x + 256 * blockIdx_x))"

definition quiet_device :: environment where
  \<comment> \<open>a run in which the device raises no error of its own, runs the threads last to
      first, and the clock advances by 1999999 ns between its two readings\<close>
  "quiet_device =
     \<lparr>clock = (\<lambda>k. 5000000 + 1999999 * int k),
      device_error = cudaSuccess,
      cudaGetErrorString = error_text,
      thread_priority = last_to_first,
      device_garbage = (\<lambda>k. f32_canonical_nan)\<rparr>"

definition failing_device :: environment where
  \<comment> \<open>the same run on a device that records error 719 during the kernel\<close>
  "failing_device = quiet_device\<lparr>device_error := cudaErrorOther 719\<rparr>"

section \<open>Lemmas about the two adders\<close>

subsection \<open>Sums that are numbers, and sums that are NaN\<close>

lemma of_nat_exponent_not_255:
  assumes "k < 255"
  shows "(of_nat k :: 8 word) \<noteq> 255"
proof
  assume "(of_nat k :: 8 word) = 255"
  then have "unat (of_nat k :: 8 word) = unat (255 :: 8 word)" by simp
  then have "k mod 256 = 255" by (simp add: unat_of_nat)
  with assms show False by simp
qed

lemma f32_round_not_nan: "\<not> is_nan (f32_round s m)"
proof -
  have "\<not> is_nan (if 2139095040 \<le> bits then Float32 s 255 0
                    else Float32 s (of_nat (bits div 8388608)) (of_nat (bits mod 8388608)))"
    for bits :: nat
  proof (cases "2139095040 \<le> bits")
    case True
    then show ?thesis by (simp add: is_nan_def)
  next
    case False
    then have "bits div 8388608 < 255" by simp
    then have "(of_nat (bits div 8388608) :: 8 word) \<noteq> 255"
      by (rule of_nat_exponent_not_255)
    with False show ?thesis by (simp add: is_nan_def)
  qed
  then show ?thesis
    unfolding f32_round_def Let_def .
qed

lemma fadd_number_not_nan:
  assumes "fadd_number x y = Some z"
  shows "\<not> is_nan z"
proof -
  have zero: "\<not> is_nan (Float32 s 0 0)" for s
    by (simp add: is_nan_def)
  have inf: "is_infinity w \<Longrightarrow> \<not> is_nan w" for w
    by (simp add: is_infinity_def is_nan_def)
  from assms show ?thesis
    by (auto simp add: fadd_number_def Let_def f32_round_not_nan zero inf split: if_splits)
qed

lemma quiet_is_nan: "is_nan (quiet x)"
proof -
  have "bit (set_bit 22 (f32_fraction x)) 22"
    by (simp add: bit_simps)
  then have "set_bit 22 (f32_fraction x) \<noteq> 0"
    by auto
  then show ?thesis by (simp add: quiet_def is_nan_def)
qed

lemma fadd_host_nan_iff: "is_nan (fadd_host x y) \<longleftrightarrow> fadd_number x y = None"
  by (cases "fadd_number x y")
     (simp_all add: fadd_host_def fadd_number_not_nan quiet_is_nan f32_default_nan_def is_nan_def [of "Float32 True 255 4194304"])

lemma fadd_device_nan_iff: "is_nan (fadd_device x y) \<longleftrightarrow> fadd_number x y = None"
  by (cases "fadd_number x y")
     (simp_all add: fadd_device_def fadd_number_not_nan f32_canonical_nan_def is_nan_def [of "Float32 False 255 8388607"])

lemma fadd_device_eq_host:
  assumes "\<not> is_nan (fadd_host x y)"
  shows "fadd_device x y = fadd_host x y"
proof -
  from assms obtain z where "fadd_number x y = Some z"
    by (auto simp add: fadd_host_nan_iff)
  then show ?thesis
    by (simp add: fadd_host_def fadd_device_def)
qed

subsection \<open>The sums, and the loop of the sequential adder\<close>

lemma length_added_upto:
  "n \<le> length a \<Longrightarrow> n \<le> length b \<Longrightarrow> n \<le> length c \<Longrightarrow>
   length (added_upto add n a b c) = length c"
  by (simp add: added_upto_def)

lemma nth_added_upto:
  "n \<le> length a \<Longrightarrow> n \<le> length b \<Longrightarrow> n \<le> length c \<Longrightarrow> j < length c \<Longrightarrow>
   added_upto add n a b c ! j = (if j < n then add (a ! j) (b ! j) else c ! j)"
  by (simp add: added_upto_def nth_append)

lemma fadd_number_one_two: "fadd_number f32_one f32_two = Some f32_three"
  by (simp add: fadd_number_def is_nan_def is_infinity_def f32_one_def f32_two_def f32_three_def
      f32_scaled_def f32_round_def bit_length.simps Let_def)


lemma fadd_host_one_two: "fadd_host f32_one f32_two = f32_three"
  by (simp add: fadd_host_def fadd_number_one_two)

lemma fadd_device_one_two: "fadd_device f32_one f32_two = f32_three"
  by (simp add: fadd_device_def fadd_number_one_two)

lemma to_int32_id: "0 \<le> x \<Longrightarrow> x \<le> INT_MAX \<Longrightarrow> to_int32 x = x"
  by (simp add: to_int32_def INT_MAX_def)

lemma loop_pointwise:
  "0 \<le> i \<Longrightarrow> nat n \<le> length a \<Longrightarrow> nat n \<le> length b \<Longrightarrow> nat n \<le> length c \<Longrightarrow>
   \<exists>c'. vectorAddSequential_loop i n a b c = Inr c' \<and> length c' = length c \<and>
        (\<forall>j<length c. c' ! j = (if nat i \<le> j \<and> j < nat n then fadd_host (a ! j) (b ! j) else c ! j))"
proof (induction i n a b c rule: vectorAddSequential_loop.induct)
  case (1 i n a b c)
  show ?case
  proof (cases "i < n")
    case False
    with "1.prems" have "\<And>j. nat i \<le> j \<Longrightarrow> \<not> j < nat n"
      by linarith
    with False show ?thesis
      by (auto simp add: vectorAddSequential_loop.simps [of i n a b c])
  next
    case True
    with "1.prems" have inb: "0 \<le> i \<and> nat i < length a \<and> nat i < length b \<and> nat i < length c"
      by linarith
    let ?c1 = "c[nat i := fadd_host (a ! nat i) (b ! nat i)]"
    from "1.IH" [OF True inb] "1.prems"
    obtain c' where run: "vectorAddSequential_loop (i + 1) n a b ?c1 = Inr c'"
      and len: "length c' = length ?c1"
      and pt: "\<forall>j<length ?c1. c' ! j =
                 (if nat (i + 1) \<le> j \<and> j < nat n then fadd_host (a ! j) (b ! j) else ?c1 ! j)"
      by auto
    have "vectorAddSequential_loop i n a b c = Inr c'"
      using True inb run by (simp add: vectorAddSequential_loop.simps [of i n a b c])
    moreover have "length c' = length c"
      using len by simp
    moreover have "\<forall>j<length c. c' ! j = (if nat i \<le> j \<and> j < nat n then fadd_host (a ! j) (b ! j) else c ! j)"
    proof (intro allI impI)
      fix j assume j: "j < length c"
      show "c' ! j = (if nat i \<le> j \<and> j < nat n then fadd_host (a ! j) (b ! j) else c ! j)"
      proof (cases "j = nat i")
        case True
        then show ?thesis using pt j inb \<open>i < n\<close> by (simp add: nat_add_distrib)
      next
        case False
        then show ?thesis using pt j inb by (auto simp: nat_add_distrib)
      qed
    qed
    ultimately show ?thesis by blast
  qed
qed

lemma loop_from_zero:
  assumes "nat n \<le> length a" "nat n \<le> length b" "nat n \<le> length c"
  shows "vectorAddSequential_loop 0 n a b c = Inr (added_upto fadd_host (nat n) a b c)"
proof -
  from loop_pointwise [of 0 n a b c] assms
  obtain c' where run: "vectorAddSequential_loop 0 n a b c = Inr c'"
    and len: "length c' = length c"
    and pt: "\<forall>j<length c. c' ! j = (if j < nat n then fadd_host (a ! j) (b ! j) else c ! j)"
    by auto
  have "c' = added_upto fadd_host (nat n) a b c"
    by (rule nth_equalityI) (simp_all add: len pt assms length_added_upto nth_added_upto)
  with run show ?thesis by simp
qed

lemma vectorAddSequential_result:
  assumes "int (length a) \<le> INT_MAX" "length a \<le> length b" "length a \<le> length c"
  shows "vectorAddSequential a b c = Inr (added_upto fadd_host (length a) a b c)"
  using assms loop_from_zero [of "int (length a)" a b c]
  by (simp add: vectorAddSequential_def to_int32_id)

subsection \<open>The threads of a launch\<close>

lemma global_index_small:
  assumes "threadIdx_x + blockDim_x * blockIdx_x < 2147483648"
  shows "global_index blockDim_x blockIdx_x threadIdx_x = int (threadIdx_x + blockDim_x * blockIdx_x)"
proof -
  define k where "k = threadIdx_x + blockDim_x * blockIdx_x"
  have k: "k < 2147483648" using assms by (simp add: k_def)
  then have "to_uint32 k = k" by (simp add: to_uint32_def)
  moreover have "to_int32 (int k) = int k"
    using k by (intro to_int32_id) (simp_all add: INT_MAX_def)
  ultimately show ?thesis
    unfolding global_index_def k_def [symmetric] by simp
qed

lemma thread_step_at:
  assumes "global_index blockDim_x blockIdx_x threadIdx_x = int k"
    and "nat n \<le> length a" "nat n \<le> length b" "nat n \<le> length c"
  shows "vectorAddParallel a b c n blockDim_x blockIdx_x threadIdx_x =
         Inr (if k < nat n then c[k := fadd_device (a ! k) (b ! k)] else c)"
proof (cases "int k < n")
  case True
  then have "k < nat n" by simp
  with assms True show ?thesis
    by (simp add: vectorAddParallel_def)
next
  case False
  then have "\<not> k < nat n" by simp
  with assms False show ?thesis
    by (simp add: vectorAddParallel_def)
qed

lemma thread_step:
  assumes "threadIdx_x + blockDim_x * blockIdx_x < 2147483648"
    and "nat n \<le> length a" "nat n \<le> length b" "nat n \<le> length c"
  shows "vectorAddParallel a b c n blockDim_x blockIdx_x threadIdx_x =
         Inr (if threadIdx_x + blockDim_x * blockIdx_x < nat n
              then c[threadIdx_x + blockDim_x * blockIdx_x :=
                       fadd_device (a ! (threadIdx_x + blockDim_x * blockIdx_x))
                            (b ! (threadIdx_x + blockDim_x * blockIdx_x))]
              else c)"
  using thread_step_at [OF global_index_small [OF assms(1)] assms(2,3,4)] .

lemma run_threads_pointwise:
  "\<forall>(bi, ti) \<in> set ts. ti + d * bi < 2147483648 \<Longrightarrow>
   nat n \<le> length a \<Longrightarrow> nat n \<le> length b \<Longrightarrow> nat n \<le> length c \<Longrightarrow>
   \<exists>c'. run_threads a b n d ts c = Inr c' \<and> length c' = length c \<and>
        (\<forall>j<length c. c' ! j =
           (if j < nat n \<and> j \<in> (\<lambda>(bi, ti). ti + d * bi) ` set ts
            then fadd_device (a ! j) (b ! j) else c ! j))"
proof (induction ts arbitrary: c)
  case Nil
  then show ?case by simp
next
  case (Cons t ts)
  obtain bi ti where t: "t = (bi, ti)" by (cases t)
  let ?i = "ti + d * bi"
  let ?c1 = "if ?i < nat n then c[?i := fadd_device (a ! ?i) (b ! ?i)] else c"
  have small: "?i < 2147483648" using Cons.prems(1) t by auto
  have step: "vectorAddParallel a b c n d bi ti = Inr ?c1"
    using thread_step [OF small Cons.prems(2,3,4)] .
  have len1: "length ?c1 = length c" by simp
  have "\<forall>(bi, ti) \<in> set ts. ti + d * bi < 2147483648" using Cons.prems(1) by auto
  from Cons.IH [OF this Cons.prems(2,3), of ?c1] Cons.prems(4)
  obtain c' where run: "run_threads a b n d ts ?c1 = Inr c'"
    and len: "length c' = length c"
    and pt: "\<forall>j<length c. c' ! j =
               (if j < nat n \<and> j \<in> (\<lambda>(bi, ti). ti + d * bi) ` set ts
                then fadd_device (a ! j) (b ! j) else ?c1 ! j)"
    by (auto simp only: len1)
  have "run_threads a b n d (t # ts) c = Inr c'"
    using step run by (simp add: t)
  moreover have "\<forall>j<length c. c' ! j =
           (if j < nat n \<and> j \<in> (\<lambda>(bi, ti). ti + d * bi) ` set (t # ts)
            then fadd_device (a ! j) (b ! j) else c ! j)"
  proof (intro allI impI)
    fix j assume j: "j < length c"
    show "c' ! j = (if j < nat n \<and> j \<in> (\<lambda>(bi, ti). ti + d * bi) ` set (t # ts)
            then fadd_device (a ! j) (b ! j) else c ! j)"
    proof (cases "j = ?i")
      case True
      then show ?thesis using pt j by (simp add: t)
    next
      case False
      then show ?thesis using pt j by (simp add: t)
    qed
  qed
  ultimately show ?case using len by blast
qed

lemma set_grid_threads:
  "set (grid_threads g d) = {(bi, ti). bi < g \<and> ti < d}"
  by (auto simp add: grid_threads_def)

lemma grid_covers:
  assumes "j < g * d"
  shows "j \<in> (\<lambda>(bi, ti). ti + d * bi) ` set (grid_threads g d)"
proof -
  from assms have d: "0 < d" by (cases d) auto
  have "j div d < g" using assms d by (simp add: less_mult_imp_div_less)
  moreover have "j mod d < d" using d by simp
  moreover have "j = j mod d + d * (j div d)" by simp
  ultimately show ?thesis
    unfolding set_grid_threads by (intro image_eqI [where x = "(j div d, j mod d)"]) auto
qed

lemma grid_small:
  assumes "(bi, ti) \<in> set (grid_threads g d)"
  shows "ti + d * bi < g * d"
proof -
  from assms have b: "bi < g" and t: "ti < d" by (auto simp add: set_grid_threads)
  from b have "Suc bi \<le> g" by simp
  then have "d * Suc bi \<le> d * g" by (rule mult_le_mono2)
  with t show ?thesis by (simp add: mult.commute)
qed

lemma launch_result:
  assumes wrap: "g * d \<le> 2147483648"
    and cover: "nat n \<le> g * d"
    and len: "nat n \<le> length a" "nat n \<le> length b" "nat n \<le> length c"
  shows "launch priority g d a b c n = Inr (added_upto fadd_device (nat n) a b c)"
proof -
  let ?ts = "sort_key priority (grid_threads g d)"
  have same: "set ?ts = set (grid_threads g d)"
    by simp
  have "\<forall>(bi, ti) \<in> set ?ts. ti + d * bi < 2147483648"
    unfolding same using grid_small [of _ _ g d] wrap by fastforce
  from run_threads_pointwise [OF this len]
  obtain c' where run: "run_threads a b n d ?ts c = Inr c'"
    and l: "length c' = length c"
    and pt: "\<forall>j<length c. c' ! j =
               (if j < nat n \<and> j \<in> (\<lambda>(bi, ti). ti + d * bi) ` set ?ts
                then fadd_device (a ! j) (b ! j) else c ! j)"
    by blast
  have "c' = added_upto fadd_device (nat n) a b c"
  proof (rule nth_equalityI)
    show "length c' = length (added_upto fadd_device (nat n) a b c)"
      using l len by (simp add: length_added_upto)
  next
    fix j assume "j < length c'"
    then have j: "j < length c" using l by simp
    have "j < nat n \<Longrightarrow> j \<in> (\<lambda>(bi, ti). ti + d * bi) ` set ?ts"
      unfolding same using cover by (intro grid_covers) simp
    then show "c' ! j = added_upto fadd_device (nat n) a b c ! j"
      using pt j len by (auto simp add: nth_added_upto)
  qed
  with run show ?thesis by (simp add: launch_def)
qed

subsection \<open>The number of groups\<close>

lemma added_upto_fill:
  "length c = n \<Longrightarrow> added_upto add n (replicate n x) (replicate n y) c = replicate n (add x y)"
  by (simp add: added_upto_def zip_replicate)

lemma gridSize_x_in_range:
  "0 \<le> N \<Longrightarrow> N \<le> INT_MAX - 255 \<Longrightarrow> gridSize_x N = Inr ((N + 255) div 256)"
  by (simp add: gridSize_x_def int_div_trunc_def INT_MAX_def)

lemma div_256_ceiling: "(N + 255) div 256 = \<lceil>real_of_int N / 256\<rceil>" for N :: int
proof -
  define g where "g = (N + 255) div 256"
  define r where "r = (N + 255) mod 256"
  have "N + 255 = 256 * g + r" and "0 \<le> r" and "r < 256"
    by (simp_all add: g_def r_def)
  then have lo: "256 * (g - 1) < N" and hi: "N \<le> 256 * g"
    by (simp_all add: algebra_simps)
  have "real_of_int (256 * (g - 1)) < real_of_int N"
    using lo by (simp only: of_int_less_iff)
  then have 1: "real_of_int g - 1 < real_of_int N / 256"
    by simp
  have "real_of_int N \<le> real_of_int (256 * g)"
    using hi by (simp only: of_int_le_iff)
  then have 2: "real_of_int N / 256 \<le> real_of_int g"
    by simp
  have "\<lceil>real_of_int N / 256\<rceil> = g"
    using 1 2 by (rule ceiling_unique)
  then show ?thesis by (simp add: g_def)
qed

subsection \<open>The runs of the two programs\<close>

lemma main_parallel_sized_success:
  assumes N: "0 < N" "N \<le> INT_MAX - 255"
    and ok: "device_error env = cudaSuccess"
  shows "main_parallel_sized N env =
           Inr \<lparr>exit_status = 0,
                stdout = ''Parallel Vector Addition took ''
                         @ string_of_int (elapsed_milliseconds (clock env 0) (clock env 1))
                         @ '' milliseconds.'' @ [newline],
                stderr = [],
                h_c = replicate (nat N) f32_three,
                trace = calls_up_to_check (nat (4 * N)) (nat ((N + 255) div 256)) 256 @
                        [Memcpy_Device_To_Host D_c, Clock_Now, Write_Stdout,
                         Cuda_Free D_a, Cuda_Free D_b, Cuda_Free D_c]\<rparr>"
proof -
  define g where "g = nat ((N + 255) div 256)"
  have gpos: "0 < g" and gle: "g \<le> 8388608" and cover: "nat N \<le> g * 256" and wrap: "g * 256 \<le> 2147483648"
    using N by (simp_all add: g_def INT_MAX_def)
  have u: "to_uint32 g = g" using gle by (simp add: to_uint32_def)
  have valid: "launch_configuration_valid g 256"
    using gpos gle by (simp add: launch_configuration_valid_def)
  have bytes: "nat ((N * 4) mod 18446744073709551616) = nat (4 * N)"
    using N by (simp add: INT_MAX_def mult.commute)
  have run: "launch (thread_priority env) g 256 (replicate (nat N) f32_one) (replicate (nat N) f32_two)
               (map (device_garbage env) [0..<nat N]) N = Inr (replicate (nat N) f32_three)"
    using launch_result [OF wrap cover, of "replicate (nat N) f32_one" "replicate (nat N) f32_two"
        "map (device_garbage env) [0..<nat N]"]
    by (simp add: added_upto_fill fadd_device_one_two)
  have hv: "host_vectors N = Inr (replicate (nat N) f32_one, replicate (nat N) f32_two, replicate (nat N) f32_zero)"
    using N by (simp add: host_vectors_def)
  have gs: "gridSize_x N = Inr (int g)"
    using N by (simp add: gridSize_x_in_range g_def)
  show ?thesis
    unfolding main_parallel_sized_def hv gs Let_def
    apply (simp only: sum.case prod.case nat_int u valid if_True run ok bytes)
    apply (simp add: g_def)
    done
qed

lemma main_parallel_sized_device_error:
  assumes N: "0 < N" "N \<le> INT_MAX - 255"
    and bad: "device_error env \<noteq> cudaSuccess"
  shows "main_parallel_sized N env =
           Inr \<lparr>exit_status = 1,
                stdout = [],
                stderr = ''CUDA error: '' @ cudaGetErrorString env (device_error env) @ [newline],
                h_c = replicate (nat N) f32_zero,
                trace = calls_up_to_check (nat (4 * N)) (nat ((N + 255) div 256)) 256 @
                        [Write_Stderr]\<rparr>"
proof -
  define g where "g = nat ((N + 255) div 256)"
  have gpos: "0 < g" and gle: "g \<le> 8388608" and cover: "nat N \<le> g * 256" and wrap: "g * 256 \<le> 2147483648"
    using N by (simp_all add: g_def INT_MAX_def)
  have u: "to_uint32 g = g" using gle by (simp add: to_uint32_def)
  have valid: "launch_configuration_valid g 256"
    using gpos gle by (simp add: launch_configuration_valid_def)
  have bytes: "nat ((N * 4) mod 18446744073709551616) = nat (4 * N)"
    using N by (simp add: INT_MAX_def mult.commute)
  have run: "launch (thread_priority env) g 256 (replicate (nat N) f32_one) (replicate (nat N) f32_two)
               (map (device_garbage env) [0..<nat N]) N = Inr (replicate (nat N) f32_three)"
    using launch_result [OF wrap cover, of "replicate (nat N) f32_one" "replicate (nat N) f32_two"
        "map (device_garbage env) [0..<nat N]"]
    by (simp add: added_upto_fill fadd_device_one_two)
  have hv: "host_vectors N = Inr (replicate (nat N) f32_one, replicate (nat N) f32_two, replicate (nat N) f32_zero)"
    using N by (simp add: host_vectors_def)
  have gs: "gridSize_x N = Inr (int g)"
    using N by (simp add: gridSize_x_in_range g_def)
  show ?thesis
    unfolding main_parallel_sized_def hv gs Let_def
    apply (simp only: sum.case prod.case nat_int u valid if_True run bad bytes)
    apply (simp add: g_def bad)
    done
qed

lemma main_parallel_sized_zero:
  "main_parallel_sized 0 env =
           Inr \<lparr>exit_status = 1,
                stdout = [],
                stderr = ''CUDA error: '' @ cudaGetErrorString env cudaErrorInvalidConfiguration @ [newline],
                h_c = [],
                trace = calls_up_to_check 0 0 256 @ [Write_Stderr]\<rparr>"
  by (simp add: main_parallel_sized_def host_vectors_def gridSize_x_def INT_MAX_def
      int_div_trunc_def to_uint32_def launch_configuration_valid_def)

lemma main_sequential_sized_result:
  assumes N: "0 \<le> N" "N \<le> INT_MAX"
  shows "main_sequential_sized N env =
           Inr \<lparr>exit_status = 0,
                stdout = ''Sequential Vector Addition took ''
                         @ string_of_int (elapsed_milliseconds (clock env 0) (clock env 1))
                         @ '' milliseconds.'' @ [newline],
                stderr = [],
                h_c = replicate (nat N) f32_three\<rparr>"
proof -
  have hv: "host_vectors N = Inr (replicate (nat N) f32_one, replicate (nat N) f32_two, replicate (nat N) f32_zero)"
    using N by (simp add: host_vectors_def)
  have run: "vectorAddSequential (replicate (nat N) f32_one) (replicate (nat N) f32_two)
               (replicate (nat N) f32_zero) = Inr (replicate (nat N) f32_three)"
    using N vectorAddSequential_result [of "replicate (nat N) f32_one" "replicate (nat N) f32_two"
        "replicate (nat N) f32_zero"]
    by (simp add: added_upto_fill fadd_host_one_two)
  show ?thesis
    unfolding main_sequential_sized_def hv Let_def
    by (simp only: sum.case prod.case run)
qed

subsection \<open>The sequential adder on operands of other lengths\<close>

lemma loop_out_of_bounds:
  "0 \<le> i \<Longrightarrow> i < n \<Longrightarrow> length b < nat n \<or> length c < nat n \<Longrightarrow>
   nat i \<le> min (length b) (length c) \<Longrightarrow>
   vectorAddSequential_loop i n a b c = Inl Out_Of_Bounds"
proof (induction i n a b c rule: vectorAddSequential_loop.induct)
  case (1 i n a b c)
  show ?case
  proof (cases "0 \<le> i \<and> nat i < length a \<and> nat i < length b \<and> nat i < length c")
    case False
    with "1.prems" show ?thesis
      by (auto simp add: vectorAddSequential_loop.simps [of i n a b c])
  next
    case True
    let ?c1 = "c[nat i := fadd_host (a ! nat i) (b ! nat i)]"
    have next_lt: "i + 1 < n" using True "1.prems" by linarith
    have "vectorAddSequential_loop (i + 1) n a b ?c1 = Inl Out_Of_Bounds"
    proof (rule "1.IH" [OF "1.prems"(2) True])
      show "0 \<le> i + 1" using True by simp
      show "i + 1 < n" by (rule next_lt)
      show "length b < nat n \<or> length ?c1 < nat n" using "1.prems"(3) by simp
      show "nat (i + 1) \<le> min (length b) (length ?c1)" using True by (simp add: nat_add_distrib)
    qed
    with True "1.prems"(2) show ?thesis
      by (simp add: vectorAddSequential_loop.simps [of i n a b c])
  qed
qed

lemma vectorAddSequential_short_operand:
  assumes "int (length a) \<le> INT_MAX" and "length b < length a \<or> length c < length a"
  shows "vectorAddSequential a b c = Inl Out_Of_Bounds"
proof -
  have "0 < int (length a)" using assms(2) by auto
  then show ?thesis
    using assms loop_out_of_bounds [of 0 "int (length a)" b c a]
    by (simp add: vectorAddSequential_def to_int32_id)
qed

lemma vectorAddSequential_huge:
  assumes "length a = 2147483648"
  shows "vectorAddSequential a b c = Inr c"
  by (simp add: vectorAddSequential_def assms to_int32_def INT_MAX_def
      vectorAddSequential_loop.simps [of 0])

subsection \<open>The launch that the program asks for\<close>

lemma launch_ceiling:
  assumes N: "0 \<le> N" "N \<le> INT_MAX"
    and len: "nat N \<le> length a" "nat N \<le> length b" "nat N \<le> length c"
  shows "launch priority (nat \<lceil>real_of_int N / 256\<rceil>) 256 a b c N = Inr (added_upto fadd_device (nat N) a b c)"
proof -
  define g where "g = nat ((N + 255) div 256)"
  have "g * 256 \<le> 2147483648" and "nat N \<le> g * 256"
    using N by (simp_all add: g_def INT_MAX_def)
  from launch_result [OF this len] show ?thesis
    by (simp add: g_def div_256_ceiling)
qed

subsection \<open>The printed line\<close>

lemma digit_char_not_newline:
  assumes "d < 10"
  shows "digit_char d \<noteq> newline"
proof -
  have "digit_char d \<in> set ''0123456789''"
    unfolding digit_char_def using assms by (intro nth_mem) simp
  moreover have "newline \<notin> set ''0123456789''"
    by (simp add: newline_def)
  ultimately show ?thesis by metis
qed

lemma newline_not_in_string_of_nat: "newline \<notin> set (string_of_nat n)"
proof (induction n rule: string_of_nat.induct)
  case (1 n)
  show ?case
  proof (cases "n < 10")
    case True
    then show ?thesis
      using digit_char_not_newline [of n] by (simp add: string_of_nat.simps [of n])
  next
    case False
    have "n mod 10 < 10" by simp
    then have "digit_char (n mod 10) \<noteq> newline" by (rule digit_char_not_newline)
    with False "1.IH" show ?thesis
      by (auto simp add: string_of_nat.simps [of n])
  qed
qed

lemma newline_not_in_string_of_int: "newline \<notin> set (string_of_int k)"
  by (simp add: string_of_int_def newline_not_in_string_of_nat) (simp add: newline_def)

lemma count_newline_line:
  assumes "newline \<notin> set pre" "newline \<notin> set num" "newline \<notin> set post"
  shows "count_list (pre @ num @ post @ [newline]) newline = 1"
  using assms by (simp add: count_list_0_iff)

subsection \<open>The two programs as they are written\<close>

lemma main_parallel_success:
  assumes "device_error env = cudaSuccess"
  shows "main_parallel env =
           Inr \<lparr>exit_status = 0,
                stdout = ''Parallel Vector Addition took ''
                         @ string_of_int (elapsed_milliseconds (clock env 0) (clock env 1))
                         @ '' milliseconds.'' @ [newline],
                stderr = [],
                h_c = replicate 1000000 f32_three,
                trace = calls_up_to_check 4000000 3907 256 @
                        [Memcpy_Device_To_Host D_c, Clock_Now, Write_Stdout,
                         Cuda_Free D_a, Cuda_Free D_b, Cuda_Free D_c]\<rparr>"
  using main_parallel_sized_success [of 1000000 env] assms
  by (simp add: main_parallel_def INT_MAX_def)

lemma main_parallel_device_error:
  assumes "device_error env \<noteq> cudaSuccess"
  shows "main_parallel env =
           Inr \<lparr>exit_status = 1,
                stdout = [],
                stderr = ''CUDA error: '' @ cudaGetErrorString env (device_error env) @ [newline],
                h_c = replicate 1000000 f32_zero,
                trace = calls_up_to_check 4000000 3907 256 @ [Write_Stderr]\<rparr>"
  using main_parallel_sized_device_error [of 1000000 env] assms
  by (simp add: main_parallel_def INT_MAX_def)

lemma main_sequential_result:
  "main_sequential env =
           Inr \<lparr>exit_status = 0,
                stdout = ''Sequential Vector Addition took ''
                         @ string_of_int (elapsed_milliseconds (clock env 0) (clock env 1))
                         @ '' milliseconds.'' @ [newline],
                stderr = [],
                h_c = replicate 1000000 f32_three\<rparr>"
  using main_sequential_sized_result [of 1000000 env]
  by (simp add: main_sequential_def INT_MAX_def)

lemma elapsed_quiet_device:
  "string_of_int (elapsed_milliseconds (clock quiet_device 0) (clock quiet_device 1)) = ''1''"
  by (simp add: quiet_device_def elapsed_milliseconds_def int_div_trunc_def string_of_int_def
      string_of_nat.simps digit_char_def)

section \<open>The claims\<close>



text \<open>
  C2, as amended. On the same inputs (equal length \<open>N\<close>, the same elements) the sequential
  adder and the parallel adder produce outputs that are bit-identical at every index where
  the sum is not a NaN, whatever the output buffers held before and in whatever order the
  device runs the threads; where the sum is a NaN, both outputs are a NaN. The two programs
  as they are written end with bit-identical \<open>C\<close>.
\<close>

theorem C2_adders_agree_on_numbers:
  assumes "0 \<le> N" "N \<le> INT_MAX"
    and "length a = nat N" "length b = nat N" "length h_c0 = nat N" "length d_c0 = nat N"
    and "device_error env = cudaSuccess"
  shows "(\<exists>c_s c_p. vectorAddSequential a b h_c0 = Inr c_s \<and>
               launch priority (nat \<lceil>real_of_int N / 256\<rceil>) 256 a b d_c0 N = Inr c_p \<and>
               length c_s = nat N \<and> length c_p = nat N \<and>
               (\<forall>i<nat N. (is_nan (c_p ! i) \<longleftrightarrow> is_nan (c_s ! i)) \<and>
                           (\<not> is_nan (c_s ! i) \<longrightarrow> c_p ! i = c_s ! i))) \<and>
         (\<exists>out_s out_p. main_sequential env' = Inr out_s \<and> main_parallel env = Inr out_p \<and>
               h_c out_p = h_c out_s)"
proof
  let ?c_s = "added_upto fadd_host (nat N) a b h_c0"
  let ?c_p = "added_upto fadd_device (nat N) a b d_c0"
  have "vectorAddSequential a b h_c0 = Inr ?c_s"
    using vectorAddSequential_result [of a b h_c0] assms(1,2,3,4,5) by simp
  moreover have "launch priority (nat \<lceil>real_of_int N / 256\<rceil>) 256 a b d_c0 N = Inr ?c_p"
    using assms(1,2) by (rule launch_ceiling) (simp_all add: assms(3,4,6))
  moreover have "length ?c_s = nat N" "length ?c_p = nat N"
    using assms(3,4,5,6) by (simp_all add: length_added_upto)
  moreover have "\<forall>i<nat N. (is_nan (?c_p ! i) \<longleftrightarrow> is_nan (?c_s ! i)) \<and>
                           (\<not> is_nan (?c_s ! i) \<longrightarrow> ?c_p ! i = ?c_s ! i)"
    using assms(3,4,5,6)
    by (simp add: nth_added_upto fadd_host_nan_iff fadd_device_nan_iff fadd_device_eq_host)
  ultimately show "\<exists>c_s c_p. vectorAddSequential a b h_c0 = Inr c_s \<and>
               launch priority (nat \<lceil>real_of_int N / 256\<rceil>) 256 a b d_c0 N = Inr c_p \<and>
               length c_s = nat N \<and> length c_p = nat N \<and>
               (\<forall>i<nat N. (is_nan (c_p ! i) \<longleftrightarrow> is_nan (c_s ! i)) \<and>
                           (\<not> is_nan (c_s ! i) \<longrightarrow> c_p ! i = c_s ! i))"
    by blast
  show "\<exists>out_s out_p. main_sequential env' = Inr out_s \<and> main_parallel env = Inr out_p \<and>
               h_c out_p = h_c out_s"
    using assms(7) by (simp add: main_sequential_result main_parallel_success)
qed

theorem C2_witness:
  "(\<exists>c_s c_p. vectorAddSequential [f32_one, f32_infinity False, f32_one]
                 [f32_two, f32_infinity True, f32_two] [f32_zero, f32_zero, f32_zero] = Inr c_s \<and>
         launch last_to_first 1 256 [f32_one, f32_infinity False, f32_one]
                 [f32_two, f32_infinity True, f32_two]
                 [f32_canonical_nan, f32_canonical_nan, f32_canonical_nan] 3 = Inr c_p \<and>
         length c_s = 3 \<and> length c_p = 3 \<and>
         (\<forall>i<3. (is_nan (c_p ! i) \<longleftrightarrow> is_nan (c_s ! i)) \<and>
                 (\<not> is_nan (c_s ! i) \<longrightarrow> c_p ! i = c_s ! i))) \<and>
   (\<exists>out_s out_p. main_sequential failing_device = Inr out_s \<and>
         main_parallel quiet_device = Inr out_p \<and> h_c out_p = h_c out_s)"
proof -
  have ok: "device_error quiet_device = cudaSuccess"
    by (simp add: quiet_device_def)
  have g: "nat \<lceil>real_of_int 3 / 256\<rceil> = 1"
    unfolding div_256_ceiling [symmetric] by simp
  have "(0::int) \<le> 3" "(3::int) \<le> INT_MAX"
    "length [f32_one, f32_infinity False, f32_one] = nat 3"
    "length [f32_two, f32_infinity True, f32_two] = nat 3"
    "length [f32_zero, f32_zero, f32_zero] = nat 3"
    "length [f32_canonical_nan, f32_canonical_nan, f32_canonical_nan] = nat 3"
    by (simp_all add: INT_MAX_def)
  from C2_adders_agree_on_numbers [OF this ok, of last_to_first failing_device]
  show ?thesis
    unfolding g by simp
qed

text \<open>
  The claim as stated, bit-identical outputs for the same inputs, fails on the inputs
  \<open>+\<infinity>\<close> and \<open>-\<infinity>\<close>: their sum is a NaN, which the host writes as \<open>0xFFC00000\<close> and the
  device as \<open>0x7FFFFFFF\<close>.
\<close>

theorem C2_counterexample:
  "vectorAddSequential [f32_infinity False] [f32_infinity True] [f32_zero] = Inr [f32_default_nan] \<and>
   launch last_to_first 1 256 [f32_infinity False] [f32_infinity True] [f32_zero] 1
     = Inr [f32_canonical_nan] \<and>
   f32_default_nan \<noteq> f32_canonical_nan"
proof (intro conjI)
  have none: "fadd_number (f32_infinity False) (f32_infinity True) = None"
    by (simp add: fadd_number_def is_nan_def is_infinity_def f32_infinity_def)
  have no_nan: "\<not> is_nan (f32_infinity s)" for s
    by (simp add: is_nan_def f32_infinity_def)
  show "vectorAddSequential [f32_infinity False] [f32_infinity True] [f32_zero] = Inr [f32_default_nan]"
    using vectorAddSequential_result [of "[f32_infinity False]" "[f32_infinity True]" "[f32_zero]"]
    by (simp add: INT_MAX_def added_upto_def fadd_host_def none no_nan)
  show "launch last_to_first 1 256 [f32_infinity False] [f32_infinity True] [f32_zero] 1
          = Inr [f32_canonical_nan]"
    using launch_result [of 1 256 1 "[f32_infinity False]" "[f32_infinity True]" "[f32_zero]"
        last_to_first]
    by (simp add: added_upto_def fadd_device_def none)
  show "f32_default_nan \<noteq> f32_canonical_nan"
    by (simp add: f32_default_nan_def f32_canonical_nan_def)
qed

text \<open>
  C3. A thread of the parallel adder whose global index is not below \<open>N\<close> writes nothing.
  For every \<open>N\<close>, a multiple of 256 or not, the launch of \<open>\<lceil>N / 256\<rceil>\<close> groups of 256 threads
  accesses no element out of range (it returns normally, with buffers of unchanged length),
  leaves every element from index \<open>N\<close> on as it was, and gives \<open>C[i] = A[i] + B[i]\<close> for
  every \<open>i\<close> in \<open>[0, N)\<close>. \<open>\<lceil>N / 256\<rceil>\<close> is the number of groups that the program asks for,
  whenever its expression for that number has a value.
\<close>

theorem C3_bounds_check:
  assumes "0 \<le> N" "N \<le> INT_MAX"
    and "nat N \<le> length a" "nat N \<le> length b" "nat N \<le> length c"
  shows "(\<not> global_index d bi ti < N \<longrightarrow> vectorAddParallel a b c N d bi ti = Inr c) \<and>
         (gridSize_x N = Inr g \<longrightarrow> to_uint32 (nat g) = nat \<lceil>real_of_int N / 256\<rceil>) \<and>
         (\<exists>c'. launch priority (nat \<lceil>real_of_int N / 256\<rceil>) 256 a b c N = Inr c' \<and>
               length c' = length c \<and>
               (\<forall>i<nat N. c' ! i = fadd_device (a ! i) (b ! i)) \<and>
               (\<forall>i. nat N \<le> i \<and> i < length c \<longrightarrow> c' ! i = c ! i))"
proof (intro conjI impI)
  show "vectorAddParallel a b c N d bi ti = Inr c" if "\<not> global_index d bi ti < N"
    using that by (simp add: vectorAddParallel_def)
  show "to_uint32 (nat g) = nat \<lceil>real_of_int N / 256\<rceil>" if g: "gridSize_x N = Inr g"
  proof -
    from g have small: "N \<le> INT_MAX - 255"
      by (simp add: gridSize_x_def split: if_splits)
    with assms(1) g have geq: "g = (N + 255) div 256"
      by (simp add: gridSize_x_in_range)
    have "nat ((N + 255) div 256) \<le> 8388608"
      using small assms(1) by (simp add: INT_MAX_def)
    then have "to_uint32 (nat ((N + 255) div 256)) = nat ((N + 255) div 256)"
      by (simp add: to_uint32_def)
    then show ?thesis
      unfolding geq div_256_ceiling .
  qed
  have "launch priority (nat \<lceil>real_of_int N / 256\<rceil>) 256 a b c N = Inr (added_upto fadd_device (nat N) a b c)"
    using assms(1,2,3,4,5) by (rule launch_ceiling)
  moreover have "length (added_upto fadd_device (nat N) a b c) = length c"
    using assms(3,4,5) by (rule length_added_upto)
  moreover have "\<forall>i<nat N. added_upto fadd_device (nat N) a b c ! i = fadd_device (a ! i) (b ! i)"
    using assms(3,4,5) by (simp add: nth_added_upto)
  moreover have "\<forall>i. nat N \<le> i \<and> i < length c \<longrightarrow> added_upto fadd_device (nat N) a b c ! i = c ! i"
    using assms(3,4,5) by (simp add: nth_added_upto)
  ultimately show "\<exists>c'. launch priority (nat \<lceil>real_of_int N / 256\<rceil>) 256 a b c N = Inr c' \<and>
               length c' = length c \<and>
               (\<forall>i<nat N. c' ! i = fadd_device (a ! i) (b ! i)) \<and>
               (\<forall>i. nat N \<le> i \<and> i < length c \<longrightarrow> c' ! i = c ! i)"
    by blast
qed

theorem C3_witness:
  "vectorAddParallel (replicate 257 f32_one) (replicate 257 f32_two) (replicate 260 f32_canonical_nan) 257 256 1 1
     = Inr (replicate 260 f32_canonical_nan) \<and>
   gridSize_x 257 = Inr 2 \<and> to_uint32 (nat 2) = 2 \<and>
   (\<exists>c'. launch last_to_first 2 256 (replicate 257 f32_one) (replicate 257 f32_two) (replicate 260 f32_canonical_nan) 257
            = Inr c' \<and>
         length c' = 260 \<and> c' ! 0 = f32_three \<and> c' ! 256 = f32_three \<and>
         c' ! 257 = f32_canonical_nan \<and> c' ! 259 = f32_canonical_nan)"
proof -
  have g: "nat \<lceil>real_of_int 257 / 256\<rceil> = 2"
    unfolding div_256_ceiling [symmetric] by simp
  have i: "\<not> global_index 256 1 1 < 257"
    by (simp add: global_index_def to_uint32_def to_int32_def INT_MAX_def)
  have gs: "gridSize_x 257 = Inr 2"
    by (simp add: gridSize_x_def INT_MAX_def int_div_trunc_def)
  have "(0::int) \<le> 257" "(257::int) \<le> INT_MAX"
    "nat 257 \<le> length (replicate 257 f32_one)" "nat 257 \<le> length (replicate 257 f32_two)"
    "nat 257 \<le> length (replicate 260 f32_canonical_nan)"
    by (simp_all add: INT_MAX_def)
  from C3_bounds_check [OF this, of 256 1 1 2 last_to_first] i gs
  obtain c' where one: "vectorAddParallel (replicate 257 f32_one) (replicate 257 f32_two)
                          (replicate 260 f32_canonical_nan) 257 256 1 1 = Inr (replicate 260 f32_canonical_nan)"
    and groups: "to_uint32 (nat 2) = 2"
    and run: "launch last_to_first 2 256 (replicate 257 f32_one) (replicate 257 f32_two) (replicate 260 f32_canonical_nan) 257
                = Inr c'"
    and len: "length c' = 260"
    and pt: "\<forall>i<257. c' ! i = fadd_device (replicate 257 f32_one ! i) (replicate 257 f32_two ! i)"
    and fr: "\<forall>i. 257 \<le> i \<and> i < 260 \<longrightarrow> c' ! i = replicate 260 f32_canonical_nan ! i"
    unfolding g by auto
  have "c' ! 0 = f32_three" "c' ! 256 = f32_three"
    using pt by (simp_all add: fadd_device_one_two)
  moreover have "c' ! 257 = f32_canonical_nan" "c' ! 259 = f32_canonical_nan"
    using fr by simp_all
  ultimately show ?thesis
    using one gs groups run len by simp
qed

text \<open>
  C4. When the device reports an error after the synchronisation, the parallel program writes
  \<open>CUDA error: \<close> followed by the description that the device supplies for it and a newline to
  standard error, writes nothing to standard output, exits with status 1 and never copies
  a device buffer back to the host. Otherwise it exits with status 0 after printing the
  one line \<open>Parallel Vector Addition took <N> milliseconds.\<close>; the sequential program
  always exits with status 0 after printing the one line
  \<open>Sequential Vector Addition took <N> milliseconds.\<close>
\<close>

theorem C4_exit_paths:
  "(device_error env \<noteq> cudaSuccess \<longrightarrow>
           (\<exists>out. main_parallel env = Inr out \<and> exit_status out = 1 \<and> stdout out = [] \<and>
                  stderr out = ''CUDA error: '' @ cudaGetErrorString env (device_error env) @ [newline] \<and>
                  \<not> (\<exists>d. Memcpy_Device_To_Host d \<in> set (trace out)))) \<and>
         (device_error env = cudaSuccess \<longrightarrow>
           (\<exists>out. main_parallel env = Inr out \<and> exit_status out = 0 \<and> stderr out = [] \<and>
                  stdout out = ''Parallel Vector Addition took ''
                               @ string_of_int (elapsed_milliseconds (clock env 0) (clock env 1))
                               @ '' milliseconds.'' @ [newline] \<and>
                  count_list (stdout out) newline = 1)) \<and>
         (\<exists>out. main_sequential env = Inr out \<and> exit_status out = 0 \<and> stderr out = [] \<and>
                stdout out = ''Sequential Vector Addition took ''
                             @ string_of_int (elapsed_milliseconds (clock env 0) (clock env 1))
                             @ '' milliseconds.'' @ [newline] \<and>
                count_list (stdout out) newline = 1)"
proof (intro conjI impI)
  assume "device_error env \<noteq> cudaSuccess"
  then show "\<exists>out. main_parallel env = Inr out \<and> exit_status out = 1 \<and> stdout out = [] \<and>
                  stderr out = ''CUDA error: '' @ cudaGetErrorString env (device_error env) @ [newline] \<and>
                  \<not> (\<exists>d. Memcpy_Device_To_Host d \<in> set (trace out))"
    by (simp add: main_parallel_device_error calls_up_to_check_def)
next
  have one: "count_list (''Parallel Vector Addition took ''
               @ string_of_int (elapsed_milliseconds (clock env 0) (clock env 1))
               @ '' milliseconds.'' @ [newline]) newline = 1"
    by (rule count_newline_line) (simp_all add: newline_not_in_string_of_int, simp_all add: newline_def)
  assume "device_error env = cudaSuccess"
  with one show "\<exists>out. main_parallel env = Inr out \<and> exit_status out = 0 \<and> stderr out = [] \<and>
                  stdout out = ''Parallel Vector Addition took ''
                               @ string_of_int (elapsed_milliseconds (clock env 0) (clock env 1))
                               @ '' milliseconds.'' @ [newline] \<and>
                  count_list (stdout out) newline = 1"
    by (simp add: main_parallel_success del: count_list.simps)
next
  have one: "count_list (''Sequential Vector Addition took ''
               @ string_of_int (elapsed_milliseconds (clock env 0) (clock env 1))
               @ '' milliseconds.'' @ [newline]) newline = 1"
    by (rule count_newline_line) (simp_all add: newline_not_in_string_of_int, simp_all add: newline_def)
  then show "\<exists>out. main_sequential env = Inr out \<and> exit_status out = 0 \<and> stderr out = [] \<and>
                stdout out = ''Sequential Vector Addition took ''
                             @ string_of_int (elapsed_milliseconds (clock env 0) (clock env 1))
                             @ '' milliseconds.'' @ [newline] \<and>
                count_list (stdout out) newline = 1"
    by (simp add: main_sequential_result del: count_list.simps)
qed

theorem C4_witness:
  "(\<exists>out. main_parallel failing_device = Inr out \<and> exit_status out = 1 \<and> stdout out = [] \<and>
          stderr out = ''CUDA error: unspecified launch failure'' @ [newline] \<and>
          \<not> (\<exists>d. Memcpy_Device_To_Host d \<in> set (trace out))) \<and>
   (\<exists>out. main_parallel quiet_device = Inr out \<and> exit_status out = 0 \<and> stderr out = [] \<and>
          stdout out = ''Parallel Vector Addition took 1 milliseconds.'' @ [newline]) \<and>
   (\<exists>out. main_sequential quiet_device = Inr out \<and> exit_status out = 0 \<and> stderr out = [] \<and>
          stdout out = ''Sequential Vector Addition took 1 milliseconds.'' @ [newline])"
proof -
  have bad: "device_error failing_device \<noteq> cudaSuccess"
    and msg: "cudaGetErrorString failing_device (device_error failing_device) = ''unspecified launch failure''"
    by (simp_all add: failing_device_def quiet_device_def error_text_def)
  have ok: "device_error quiet_device = cudaSuccess"
    by (simp add: quiet_device_def)
  from C4_exit_paths [of failing_device] bad
  have 1: "\<exists>out. main_parallel failing_device = Inr out \<and> exit_status out = 1 \<and> stdout out = [] \<and>
          stderr out = ''CUDA error: unspecified launch failure'' @ [newline] \<and>
          \<not> (\<exists>d. Memcpy_Device_To_Host d \<in> set (trace out))"
    by (simp add: msg)
  from C4_exit_paths [of quiet_device, unfolded elapsed_quiet_device] ok
  have 2: "(\<exists>out. main_parallel quiet_device = Inr out \<and> exit_status out = 0 \<and> stderr out = [] \<and>
          stdout out = ''Parallel Vector Addition took 1 milliseconds.'' @ [newline]) \<and>
      (\<exists>out. main_sequential quiet_device = Inr out \<and> exit_status out = 0 \<and> stderr out = [] \<and>
          stdout out = ''Sequential Vector Addition took 1 milliseconds.'' @ [newline])"
    by (simp del: count_list.simps) blast
  from 1 2 show ?thesis by blast
qed

text \<open>
  C5, as amended. In the parallel program the first reading of the clock is taken right
  before the kernel launch, after the three allocations and the two host-to-device
  transfers; the second reading is taken after the device-to-host transfer of the output,
  which follows the synchronisation and the error check. The reported time is the
  difference of the two readings: the host-to-device transfers lie outside of the timed
  interval, the device-to-host transfer lies inside it.
\<close>

theorem C5_timed_interval:
  assumes "device_error env = cudaSuccess"
  shows "\<exists>out. main_parallel env = Inr out \<and>
           before_timed_interval (trace out) =
             [Cuda_Malloc D_a 4000000, Cuda_Malloc D_b 4000000, Cuda_Malloc D_c 4000000,
              Memcpy_Host_To_Device D_a, Memcpy_Host_To_Device D_b] \<and>
           timed_interval (trace out) =
             [Kernel_Launch 3907 256, Device_Synchronize, Get_Last_Error, Memcpy_Device_To_Host D_c] \<and>
           after_timed_interval (trace out) =
             [Write_Stdout, Cuda_Free D_a, Cuda_Free D_b, Cuda_Free D_c] \<and>
           stdout out = ''Parallel Vector Addition took ''
                        @ string_of_int (elapsed_milliseconds (clock env 0) (clock env 1))
                        @ '' milliseconds.'' @ [newline]"
  using assms
  by (simp add: main_parallel_success calls_up_to_check_def before_timed_interval_def
      timed_interval_def after_timed_interval_def)

theorem C5_witness:
  "\<exists>out. main_parallel quiet_device = Inr out \<and>
           before_timed_interval (trace out) =
             [Cuda_Malloc D_a 4000000, Cuda_Malloc D_b 4000000, Cuda_Malloc D_c 4000000,
              Memcpy_Host_To_Device D_a, Memcpy_Host_To_Device D_b] \<and>
           timed_interval (trace out) =
             [Kernel_Launch 3907 256, Device_Synchronize, Get_Last_Error, Memcpy_Device_To_Host D_c] \<and>
           after_timed_interval (trace out) =
             [Write_Stdout, Cuda_Free D_a, Cuda_Free D_b, Cuda_Free D_c] \<and>
           stdout out = ''Parallel Vector Addition took 1 milliseconds.'' @ [newline]"
proof -
  have ok: "device_error quiet_device = cudaSuccess"
    by (simp add: quiet_device_def)
  from C5_timed_interval [OF ok, unfolded elapsed_quiet_device]
  show ?thesis by simp
qed

text \<open>
  The claim as stated has the device-to-host transfer outside of the timed interval. In a
  run without error it is the last call before the second reading of the clock.
\<close>

theorem C5_counterexample:
  "map_sum id (\<lambda>out. timed_interval (trace out)) (main_parallel quiet_device) =
     Inr [Kernel_Launch 3907 256, Device_Synchronize, Get_Last_Error, Memcpy_Device_To_Host D_c] \<and>
   Memcpy_Device_To_Host D_c \<in>
     set [Kernel_Launch 3907 256, Device_Synchronize, Get_Last_Error, Memcpy_Device_To_Host D_c]"
proof -
  have ok: "device_error quiet_device = cudaSuccess"
    by (simp add: quiet_device_def)
  show ?thesis
    by (simp add: main_parallel_success [OF ok] calls_up_to_check_def
        timed_interval_def)
qed

text \<open>
  C6. The parallel program is to release its three device buffers on every exit path. Run
  on a device that reports an error, it exits with status 1 with all three buffers still
  allocated: the \<^verbatim>\<open>return 1\<close> of the error check comes before the three \<^verbatim>\<open>cudaFree\<close>. Run on
  a device that reports none, it exits with status 0 and no buffer allocated.
\<close>

theorem C6_error_return_frees_nothing:
  "map_sum id (\<lambda>out. (exit_status out, still_allocated (trace out) {})) (main_parallel failing_device)
     = Inr (1, {D_a, D_b, D_c}) \<and>
   map_sum id (\<lambda>out. (exit_status out, still_allocated (trace out) {})) (main_parallel quiet_device)
     = Inr (0, {})"
proof
  have bad: "device_error failing_device \<noteq> cudaSuccess"
    by (simp add: failing_device_def quiet_device_def)
  show "map_sum id (\<lambda>out. (exit_status out, still_allocated (trace out) {})) (main_parallel failing_device)
     = Inr (1, {D_a, D_b, D_c})"
    by (auto simp add: main_parallel_device_error [OF bad] calls_up_to_check_def)
  have ok: "device_error quiet_device = cudaSuccess"
    by (simp add: quiet_device_def)
  show "map_sum id (\<lambda>out. (exit_status out, still_allocated (trace out) {})) (main_parallel quiet_device)
     = Inr (0, {})"
    by (auto simp add: main_parallel_success [OF ok] calls_up_to_check_def)
qed

text \<open>
  C7, as amended. For every \<open>N\<close> with \<open>0 \<le> N \<le> INT_MAX - 255\<close> the \<^verbatim>\<open>int\<close> expression
  \<^verbatim>\<open>(N + 255) / 256\<close> is the ceiling of \<open>N / 256\<close>, and the parallel program launches that
  many groups of 256 threads.
\<close>

theorem C7_group_count:
  assumes "0 \<le> N" "N \<le> INT_MAX - 255"
  shows "gridSize_x N = Inr \<lceil>real_of_int N / 256\<rceil> \<and>
         (\<exists>out. main_parallel_sized N env = Inr out \<and>
                Kernel_Launch (nat \<lceil>real_of_int N / 256\<rceil>) 256 \<in> set (trace out))"
proof
  show "gridSize_x N = Inr \<lceil>real_of_int N / 256\<rceil>"
    using assms(1,2) by (simp add: gridSize_x_in_range div_256_ceiling)
  show "\<exists>out. main_parallel_sized N env = Inr out \<and>
                Kernel_Launch (nat \<lceil>real_of_int N / 256\<rceil>) 256 \<in> set (trace out)"
  proof (cases "N = 0")
    case True
    then show ?thesis
      by (simp add: main_parallel_sized_zero calls_up_to_check_def)
  next
    case False
    with assms(1) have pos: "0 < N" by simp
    show ?thesis
    proof (cases "device_error env = cudaSuccess")
      case True
      from main_parallel_sized_success [OF pos assms(2) True] show ?thesis
        by (simp add: calls_up_to_check_def div_256_ceiling)
    next
      case False
      from main_parallel_sized_device_error [OF pos assms(2) False] show ?thesis
        by (simp add: calls_up_to_check_def div_256_ceiling)
    qed
  qed
qed

theorem C7_witness:
  "gridSize_x 1000000 = Inr 3907 \<and>
   (\<exists>out. main_parallel_sized 1000000 quiet_device = Inr out \<and>
          Kernel_Launch 3907 256 \<in> set (trace out))"
proof -
  have g: "\<lceil>real_of_int 1000000 / 256\<rceil> = 3907"
    unfolding div_256_ceiling [symmetric] by simp
  have "(0::int) \<le> 1000000" "(1000000::int) \<le> INT_MAX - 255"
    by (simp_all add: INT_MAX_def)
  from C7_group_count [OF this, of quiet_device] show ?thesis
    unfolding g by simp
qed

text \<open>
  The claim as stated, for every \<open>N \<ge> 0\<close>, fails at \<open>N = INT_MAX\<close>: \<^verbatim>\<open>N + 255\<close> leaves the
  range of \<^verbatim>\<open>int\<close>.
\<close>

theorem C7_counterexample:
  "gridSize_x 2147483647 = Inl Signed_Overflow"
  by (simp add: gridSize_x_def INT_MAX_def)

text \<open>
  C8, as amended. For \<open>N = 0\<close> the loop of the sequential adder runs zero times and leaves
  the output as it is, and the sequential program ends with an empty \<open>C\<close> and status 0. The
  parallel program writes no element and ends with an empty \<open>C\<close> as well, but it asks for a
  launch of zero groups, which has no thread and which the device refuses as an invalid
  configuration: the program reports that error on standard error and exits with status 1.
\<close>

theorem C8_empty_input:
  "vectorAddSequential [] b c = Inr c \<and>
   main_sequential_sized 0 env =
     Inr \<lparr>exit_status = 0,
          stdout = ''Sequential Vector Addition took ''
                   @ string_of_int (elapsed_milliseconds (clock env 0) (clock env 1))
                   @ '' milliseconds.'' @ [newline],
          stderr = [],
          h_c = []\<rparr> \<and>
   main_parallel_sized 0 env =
     Inr \<lparr>exit_status = 1,
          stdout = [],
          stderr = ''CUDA error: '' @ cudaGetErrorString env cudaErrorInvalidConfiguration @ [newline],
          h_c = [],
          trace = [Cuda_Malloc D_a 0, Cuda_Malloc D_b 0, Cuda_Malloc D_c 0,
                   Memcpy_Host_To_Device D_a, Memcpy_Host_To_Device D_b,
                   Clock_Now, Kernel_Launch 0 256, Device_Synchronize, Get_Last_Error,
                   Write_Stderr]\<rparr>"
proof (intro conjI)
  show "vectorAddSequential [] b c = Inr c"
    by (simp add: vectorAddSequential_def to_int32_def INT_MAX_def vectorAddSequential_loop.simps [of 0])
  show "main_sequential_sized 0 env =
     Inr \<lparr>exit_status = 0,
          stdout = ''Sequential Vector Addition took ''
                   @ string_of_int (elapsed_milliseconds (clock env 0) (clock env 1))
                   @ '' milliseconds.'' @ [newline],
          stderr = [],
          h_c = []\<rparr>"
    using main_sequential_sized_result [of 0 env] by (simp add: INT_MAX_def)
  show "main_parallel_sized 0 env =
     Inr \<lparr>exit_status = 1,
          stdout = [],
          stderr = ''CUDA error: '' @ cudaGetErrorString env cudaErrorInvalidConfiguration @ [newline],
          h_c = [],
          trace = [Cuda_Malloc D_a 0, Cuda_Malloc D_b 0, Cuda_Malloc D_c 0,
                   Memcpy_Host_To_Device D_a, Memcpy_Host_To_Device D_b,
                   Clock_Now, Kernel_Launch 0 256, Device_Synchronize, Get_Last_Error,
                   Write_Stderr]\<rparr>"
    by (simp add: main_parallel_sized_zero calls_up_to_check_def)
qed

theorem C8_witness:
  "vectorAddSequential [] [] [] = Inr [] \<and>
   map_sum id (\<lambda>out. (exit_status out, stdout out, h_c out)) (main_sequential_sized 0 quiet_device)
     = Inr (0, ''Sequential Vector Addition took 1 milliseconds.'' @ [newline], []) \<and>
   map_sum id (\<lambda>out. (exit_status out, stderr out, h_c out)) (main_parallel_sized 0 quiet_device)
     = Inr (1, ''CUDA error: invalid configuration argument'' @ [newline], [])"
proof -
  have msg: "cudaGetErrorString quiet_device cudaErrorInvalidConfiguration = ''invalid configuration argument''"
    by (simp add: quiet_device_def error_text_def)
  from C8_empty_input [of "[]" "[]" quiet_device, unfolded elapsed_quiet_device msg]
  show ?thesis by simp
qed

text \<open>
  The claim as stated has the parallel program exit with status 0 for \<open>N = 0\<close>. It exits
  with status 1, also on a device that raises no error of its own.
\<close>

theorem C8_counterexample:
  "map_sum id exit_status (main_parallel_sized 0 quiet_device) = Inr 1"
  by (simp add: main_parallel_sized_zero)

text \<open>
  C9. In both programs the host vector \<open>C\<close> is created with \<open>N\<close> elements that are all 0.0,
  and that is the vector the sequential adder is run on. An element that the adder does
  not write stays 0.0: the sequential adder run on a shorter first input leaves 0.0 from
  that length on, and the parallel program that stops at the error check leaves all of
  \<open>C\<close> at 0.0.
\<close>

theorem C9_output_starts_as_zeros:
  assumes "0 \<le> N" "N \<le> INT_MAX"
  shows "\<exists>h_a h_b h_c0.
           host_vectors N = Inr (h_a, h_b, h_c0) \<and>
           length h_c0 = nat N \<and> (\<forall>i<nat N. h_c0 ! i = f32_zero) \<and>
           map_sum id h_c (main_sequential_sized N env) = vectorAddSequential h_a h_b h_c0 \<and>
           (length a \<le> nat N \<and> length a \<le> length b \<longrightarrow>
              (\<exists>c'. vectorAddSequential a b h_c0 = Inr c' \<and> length c' = nat N \<and>
                    (\<forall>i. length a \<le> i \<and> i < nat N \<longrightarrow> c' ! i = f32_zero))) \<and>
           (device_error env \<noteq> cudaSuccess \<longrightarrow>
              (\<exists>out. main_parallel env = Inr out \<and> h_c out = replicate 1000000 f32_zero))"
proof -
  let ?c = "replicate (nat N) f32_zero"
  have hv: "host_vectors N = Inr (replicate (nat N) f32_one, replicate (nat N) f32_two, ?c)"
    using assms(1) by (simp add: host_vectors_def)
  have zeros: "length ?c = nat N \<and> (\<forall>i<nat N. ?c ! i = f32_zero)"
    by simp
  have runs: "map_sum id h_c (main_sequential_sized N env) =
          vectorAddSequential (replicate (nat N) f32_one) (replicate (nat N) f32_two) ?c"
    by (simp add: main_sequential_sized_def hv Let_def split: sum.splits)
  have rest: "\<exists>c'. vectorAddSequential a b ?c = Inr c' \<and> length c' = nat N \<and>
                  (\<forall>i. length a \<le> i \<and> i < nat N \<longrightarrow> c' ! i = f32_zero)"
    if len: "length a \<le> nat N \<and> length a \<le> length b"
  proof -
    have small: "int (length a) \<le> INT_MAX" using len assms(1,2) by linarith
    have "vectorAddSequential a b ?c = Inr (added_upto fadd_host (length a) a b ?c)"
      using small len by (simp add: vectorAddSequential_result)
    moreover have "length (added_upto fadd_host (length a) a b ?c) = nat N"
      using len by (simp add: length_added_upto)
    moreover have "\<forall>i. length a \<le> i \<and> i < nat N \<longrightarrow> added_upto fadd_host (length a) a b ?c ! i = f32_zero"
      using len by (simp add: nth_added_upto)
    ultimately show ?thesis by blast
  qed
  have stop: "\<exists>out. main_parallel env = Inr out \<and> h_c out = replicate 1000000 f32_zero"
    if "device_error env \<noteq> cudaSuccess"
    using that by (simp add: main_parallel_device_error)
  from hv zeros runs rest stop show ?thesis
    by (intro exI [of _ "replicate (nat N) f32_one"] exI [of _ "replicate (nat N) f32_two"]
        exI [of _ ?c]) (intro conjI impI, simp_all)
qed

theorem C9_witness:
  "host_vectors 3 = Inr ([f32_one, f32_one, f32_one], [f32_two, f32_two, f32_two],
                         [f32_zero, f32_zero, f32_zero]) \<and>
   map_sum id h_c (main_sequential_sized 3 failing_device) =
     vectorAddSequential [f32_one, f32_one, f32_one] [f32_two, f32_two, f32_two]
       [f32_zero, f32_zero, f32_zero] \<and>
   (\<exists>c'. vectorAddSequential [f32_one] [f32_two] [f32_zero, f32_zero, f32_zero] = Inr c' \<and>
         length c' = 3 \<and> c' ! 1 = f32_zero \<and> c' ! 2 = f32_zero) \<and>
   (\<exists>out. main_parallel failing_device = Inr out \<and> h_c out = replicate 1000000 f32_zero)"
proof -
  have bad: "device_error failing_device \<noteq> cudaSuccess"
    by (simp add: failing_device_def quiet_device_def)
  have hv: "host_vectors 3 = Inr ([f32_one, f32_one, f32_one], [f32_two, f32_two, f32_two],
                         [f32_zero, f32_zero, f32_zero])"
    by (simp add: host_vectors_def numeral_3_eq_3)
  have "(0::int) \<le> 3" "(3::int) \<le> INT_MAX"
    by (simp_all add: INT_MAX_def)
  from C9_output_starts_as_zeros [OF this, of failing_device "[f32_one]" "[f32_two]"] bad
  show ?thesis
    unfolding hv by (auto simp add: numeral_3_eq_3)
qed

text \<open>
  C10, as amended. The sequential adder takes its iteration count from the length of its
  first input \<open>a\<close> alone, as long as that length fits \<^verbatim>\<open>int\<close>: for every call with
  \<open>a.size() \<le> INT_MAX\<close>, \<open>a.size() \<le> b.size()\<close> and \<open>a.size() \<le> c.size()\<close>, the first
  \<open>a.size()\<close> elements of \<open>c\<close> are written with the sums and every element of \<open>c\<close> from
  index \<open>a.size()\<close> on is left unchanged. The lengths of \<open>b\<close> and \<open>c\<close> are not consulted:
  when one of them is shorter than \<open>a\<close>, the loop runs into an access out of range.
\<close>

theorem C10_iteration_count_from_first_input:
  assumes "int (length a) \<le> INT_MAX"
  shows "(length a \<le> length b \<and> length a \<le> length c \<longrightarrow>
          (\<exists>c'. vectorAddSequential a b c = Inr c' \<and> length c' = length c \<and>
                (\<forall>i<length a. c' ! i = fadd_host (a ! i) (b ! i)) \<and>
                (\<forall>i. length a \<le> i \<and> i < length c \<longrightarrow> c' ! i = c ! i))) \<and>
         (length b < length a \<or> length c < length a \<longrightarrow>
          vectorAddSequential a b c = Inl Out_Of_Bounds)"
proof (intro conjI impI)
  assume len: "length a \<le> length b \<and> length a \<le> length c"
  then have run: "vectorAddSequential a b c = Inr (added_upto fadd_host (length a) a b c)"
    using assms by (simp add: vectorAddSequential_result)
  have "length (added_upto fadd_host (length a) a b c) = length c"
    using len by (simp add: length_added_upto)
  moreover have "\<forall>i<length a. added_upto fadd_host (length a) a b c ! i = fadd_host (a ! i) (b ! i)"
    using len by (simp add: nth_added_upto)
  moreover have "\<forall>i. length a \<le> i \<and> i < length c \<longrightarrow> added_upto fadd_host (length a) a b c ! i = c ! i"
    using len by (simp add: nth_added_upto)
  ultimately show "\<exists>c'. vectorAddSequential a b c = Inr c' \<and> length c' = length c \<and>
                (\<forall>i<length a. c' ! i = fadd_host (a ! i) (b ! i)) \<and>
                (\<forall>i. length a \<le> i \<and> i < length c \<longrightarrow> c' ! i = c ! i)"
    using run by blast
next
  assume "length b < length a \<or> length c < length a"
  with assms show "vectorAddSequential a b c = Inl Out_Of_Bounds"
    by (rule vectorAddSequential_short_operand)
qed

text \<open>
  The claim as stated, for every call with \<open>a.size() \<le> b.size()\<close> and
  \<open>a.size() \<le> c.size()\<close>, fails on three vectors of \<open>2^31\<close> elements: \<^verbatim>\<open>int n = a.size()\<close>
  is then \<open>-2^31\<close>, the loop body never runs, and no element of \<open>c\<close> is written.
\<close>

theorem C10_counterexample:
  "vectorAddSequential (replicate 2147483648 f32_one) (replicate 2147483648 f32_two)
     (replicate 2147483648 f32_zero) = Inr (replicate 2147483648 f32_zero)"
  by (rule vectorAddSequential_huge) (simp only: length_replicate)

theorem C10_witness:
  "vectorAddSequential [f32_one, f32_one] [f32_two, f32_two, f32_one] [f32_zero, f32_zero, f32_two, f32_one]
     = Inr [f32_three, f32_three, f32_two, f32_one] \<and>
   vectorAddSequential [f32_one, f32_one] [f32_two] [f32_zero, f32_zero, f32_two] = Inl Out_Of_Bounds"
proof -
  let ?a = "[f32_one, f32_one]"
  let ?b = "[f32_two, f32_two, f32_one]"
  let ?c = "[f32_zero, f32_zero, f32_two, f32_one]"
  have a: "int (length ?a) \<le> INT_MAX" by (simp add: INT_MAX_def)
  from C10_iteration_count_from_first_input [OF a, of ?b ?c]
  obtain c' where run: "vectorAddSequential ?a ?b ?c = Inr c'" and len: "length c' = 4"
    and pt: "\<forall>i<2. c' ! i = fadd_host (?a ! i) (?b ! i)"
    and fr: "\<forall>i. 2 \<le> i \<and> i < 4 \<longrightarrow> c' ! i = ?c ! i"
    by auto
  have "c' ! 0 = f32_three" "c' ! 1 = f32_three" using pt by (simp_all add: fadd_host_one_two)
  moreover have "c' ! 2 = f32_two" "c' ! 3 = f32_one" using fr by simp_all
  ultimately have "c' = [f32_three, f32_three, f32_two, f32_one]"
    using len by (intro nth_equalityI) (auto simp add: less_Suc_eq numeral_eq_Suc)
  moreover have "vectorAddSequential ?a [f32_two] [f32_zero, f32_zero, f32_two] = Inl Out_Of_Bounds"
    using C10_iteration_count_from_first_input [OF a, of "[f32_two]" "[f32_zero, f32_zero, f32_two]"]
    by simp
  ultimately show ?thesis using run by simp
qed

end
